theory Spec2Isabelle
  imports Complex_Main
begin

section \<open>Data model of \<open>src/lib/provider.ts\<close>\<close>

text \<open>
  The provider is a class with mutable fields that drives three collaborators: the
  replicated document (\<open>Y.Doc\<close>), the presence state (\<open>Awareness\<close>) and the document
  store. A handler of the class becomes a function from the state before the call to the
  state after it, together with the list of effects the call performs, in program order.
  JavaScript runs each handler to completion, so one call is one step of the model. An
  \<open>async\<close> method runs up to its \<open>await\<close> in the step that calls it; what it does after
  the awaited promise settles is a step of its own, taken in whatever state the provider
  is in by then.
\<close>

type_synonym bytes = "nat list"
  \<comment> \<open>a \<open>Uint8Array\<close>\<close>

type_synonym channel_handle = string
  \<comment> \<open>a subscribed \<open>Channel\<close>, identified by the name it was subscribed under\<close>

text \<open>
  The \<open>origin\<close> argument has type \<open>any\<close>; the code only ever compares it with \<open>this\<close>
  by identity (\<open>origin !== this\<close>).
\<close>

datatype origin = This | Undefined | Other string

text \<open>
  Function objects, compared by identity as \<open>on\<close>/\<open>off\<close> and
  \<open>addEventListener\<close>/\<open>removeEventListener\<close> do. A prototype method and the result of
  \<open>.bind(this)\<close> on it are two different objects, and so are two evaluations of an arrow
  expression.
\<close>

datatype fn =
    OnDocumentUpdate                  \<comment> \<open>\<open>this.onDocumentUpdate\<close>, the prototype method\<close>
  | OnDocumentUpdate_bound            \<comment> \<open>\<open>this.onDocumentUpdate.bind(this)\<close> of line 268\<close>
  | OnAwarenessUpdate                 \<comment> \<open>\<open>this.onAwarenessUpdate\<close>, the prototype method\<close>
  | OnAwarenessUpdate_bound           \<comment> \<open>\<open>this.onAwarenessUpdate.bind(this)\<close> of line 269\<close>
  | RemoveSelfFromAwarenessOnUnload   \<comment> \<open>\<open>this.removeSelfFromAwarenessOnUnload\<close>\<close>
  | Exit_arrow_256                    \<comment> \<open>the arrow function created at line 256\<close>
  | Exit_arrow_345                    \<comment> \<open>the arrow function created at line 345\<close>
  | Foreign nat                       \<comment> \<open>a listener that is not the provider's\<close>

datatype error_payload = Provider | Reason string
  \<comment> \<open>\<open>emit('error', this)\<close> and \<open>emit('error', error)\<close>\<close>

datatype signal =
    Message bytes
  | Awareness bytes
  | Error error_payload
  | Connect
  | Disconnect
  | Status string
  | Synced bool
  | Sync bool
  | Save nat

text \<open>
  What a handler does to the outside, in order. \<open>Trigger c e p\<close> is
  \<open>channel.trigger(e, fromUint8Array(p))\<close> on the handle \<open>c\<close>: the base64 text is
  represented by the bytes it encodes, and \<open>fromBase64\<close> on the receiving side gives
  them back. \<open>Log\<close> keeps the text of the first argument of the \<open>logger\<close> call
  (of the resync message, the part before the number).
\<close>

text \<open>
  A JavaScript number: every double is a rational number or one of three special
  values.
\<close>

datatype number = Num rat | NaN | Infinity | Neg_Infinity

datatype get_result = Get_rejected string | Get_resolved "bytes option"

datatype set_result = Set_rejected string | Set_resolved

text \<open>
  The promise an \<open>async\<close> method is suspended on, with the outcome it settles with:
  \<open>save\<close> awaits \<open>store.set\<close> and \<open>onConnect\<close> awaits \<open>store.get\<close>.
\<close>

datatype job = Save_job set_result | Connect_job get_result

datatype effect =
    Log string
  | Emit signal
  | Trigger channel_handle string bytes
  | Store_get
  | Store_set bytes
  | Y_apply bytes origin
  | Subscribe string
  | Bind channel_handle string
  | Channel_disconnect channel_handle
  | Set_interval number
      \<comment> \<open>\<open>setInterval(callback, delay)\<close> with the delay argument as the code passes it\<close>
  | Clear_interval nat
      \<comment> \<open>\<open>clearInterval(handle)\<close>\<close>
  | Awaiting job
      \<comment> \<open>an \<open>async\<close> method suspends at its \<open>await\<close>\<close>
  | Unhandled_rejection string
      \<comment> \<open>the promise of an \<open>async\<close> method rejects; every call in the class drops that
          promise, so nobody handles the rejection\<close>
  | Uncaught string
      \<comment> \<open>an exception leaves a callback and reaches the transport that called it\<close>

subsection \<open>The collaborators\<close>

text \<open>
  The libraries are not part of the repository, so what they compute is a parameter of
  every handler. \<open>Y.applyUpdate\<close> either throws or yields the new document state and,
  when the transaction changed something, the payload of the one \<open>update\<close> event it
  fires; the event carries the origin the caller passed. A store object answers each of
  its two calls with a promise that resolves or rejects.
\<close>

datatype 'd applied = Throws string | Applied 'd "bytes option"

record 'd collab =
  Y_applyUpdate :: "'d \<Rightarrow> bytes \<Rightarrow> 'd applied"
  Y_encodeStateAsUpdate :: "'d \<Rightarrow> bytes"
  A_encodeAwarenessUpdate :: "(nat \<times> string) list \<Rightarrow> nat list \<Rightarrow> bytes"

record store_t =
  store_get :: get_result
  store_set :: "bytes \<Rightarrow> set_result"

record 'd ydoc =
  ystate :: 'd
  clientID :: nat
  doc_observers :: "fn list"
    \<comment> \<open>the listeners of the document's \<open>update\<close> event\<close>

record awareness_t =
  aw_clientID :: nat
  states :: "(nat \<times> string) list"
    \<comment> \<open>the \<open>Map\<close> from client id to presence state, in insertion order\<close>
  aw_observers :: "fn list"
    \<comment> \<open>the listeners of the awareness \<open>update\<close> event\<close>

datatype host_kind = Browser | Node | Bare
  \<comment> \<open>\<open>typeof window !== 'undefined'\<close>, else \<open>typeof process !== 'undefined'\<close>, else neither\<close>

record host_t =
  kind :: host_kind
  hooks :: "fn list"
    \<comment> \<open>the \<open>beforeunload\<close> listeners of \<open>window\<close>, or the \<open>exit\<close> listeners of \<open>process\<close>\<close>
  intervals :: "(nat \<times> int) list"
    \<comment> \<open>the interval timers that are armed: handle and period in milliseconds\<close>
  timer_delay :: "number \<Rightarrow> int"
    \<comment> \<open>the period the host's \<open>setInterval\<close> arms for a delay argument\<close>

datatype resync = Resync_undefined | Resync_false | Resync_number number
  \<comment> \<open>\<open>resyncInterval?: number | false\<close>\<close>

record config_t =
  cfg_channel :: string
  cfg_awareness :: "awareness_t option"
  cfg_resyncInterval :: resync

record 'd provider =
  awareness :: awareness_t
  connected :: bool
  channel :: "channel_handle option"
  synced_field :: bool
    \<comment> \<open>the private field \<open>_synced\<close>\<close>
  resyncInterval :: "nat option"
    \<comment> \<open>the timer handle; \<open>None\<close> is \<open>undefined\<close>\<close>
  version :: nat
  store :: "store_t option"
    \<comment> \<open>the private field \<open>store\<close> of line 43; \<open>None\<close> is \<open>undefined\<close>\<close>
  doc :: "'d ydoc"
  config :: config_t
  host :: host_t
    \<comment> \<open>the globals \<open>window\<close> or \<open>process\<close>, and the timers\<close>
  error_listener :: bool
    \<comment> \<open>whether a caller has attached a listener to the provider's \<open>error\<close> event;
        the class attaches none\<close>

section \<open>The handlers\<close>

text \<open>\<open>isOnline(online?: boolean)\<close>: with no argument it reads the flag, else it sets it.\<close>

definition isOnline :: "bool option \<Rightarrow> 'd provider \<Rightarrow> bool \<times> 'd provider" where
  "isOnline online s =
     (case online of
        None \<Rightarrow> (connected s, s)
      | Some b \<Rightarrow>
          if \<not> b \<and> b \<noteq> False then (connected s, s)
          else (b, s\<lparr>connected := b\<rparr>))"

text \<open>
  \<open>emit('message', update)\<close> with the listener of line 262, and
  \<open>emit('awareness', update)\<close> with the listener of line 258. What the listeners do
  that callers attach to the provider's signals is not part of the class and is left out.
\<close>

definition emit_message :: "bytes \<Rightarrow> 'd provider \<Rightarrow> effect list" where
  "emit_message update s =
     Emit (Message update) #
     (case channel s of None \<Rightarrow> [] | Some c \<Rightarrow> [Trigger c ''client-message'' update])"

definition emit_awareness :: "bytes \<Rightarrow> 'd provider \<Rightarrow> effect list" where
  "emit_awareness update s =
     Emit (Awareness update) #
     (case channel s of None \<Rightarrow> [] | Some c \<Rightarrow> [Trigger c ''client-awareness'' update])"

text \<open>
  \<open>emit('error', payload)\<close>. The emitter of \<open>events\<close> throws when no listener is
  attached to \<open>error\<close>: the payload itself when it is an error, as a rejection reason
  is, and \<open>ERR_UNHANDLED_ERROR\<close> otherwise. \<open>Inl\<close> is the exception.
\<close>

definition emit_error :: "error_payload \<Rightarrow> 'd provider \<Rightarrow> string + effect list" where
  "emit_error payload s =
     (if error_listener s then Inr [Emit (Error payload)]
      else Inl (case payload of Provider \<Rightarrow> ''ERR_UNHANDLED_ERROR'' | Reason error \<Rightarrow> error))"

text \<open>
  The \<open>catch\<close> block of \<open>save\<close> and the statement after it (lines 84 to 88): an exception
  of \<open>emit('error', error)\<close> leaves the \<open>async\<close> method, so its promise rejects and
  line 88 is not reached.
\<close>

definition save_catch :: "string \<Rightarrow> 'd provider \<Rightarrow> effect list" where
  "save_catch error s =
     (case emit_error (Reason error) s of
        Inl exn \<Rightarrow> [Unhandled_rejection exn]
      | Inr t \<Rightarrow> t @ [Emit (Save (version s))])"

text \<open>
  \<open>save\<close> up to its \<open>await\<close>. With no store object, \<open>this.store.set\<close> throws a
  \<open>TypeError\<close> inside the \<open>try\<close> before anything is awaited, and the method runs to
  its end in the same step. With a store object, \<open>set\<close> is called with the encoded
  document and the method suspends on the promise.
\<close>

definition save :: "'d collab \<Rightarrow> 'd provider \<Rightarrow> effect list" where
  "save C s =
     (let snapshot = Y_encodeStateAsUpdate C (ystate (doc s)) in
      case store s of
        None \<Rightarrow> save_catch ''TypeError'' s
      | Some st \<Rightarrow> [Store_set snapshot, Awaiting (Save_job (store_set st snapshot))])"

text \<open>
  \<open>save\<close> after its \<open>await\<close>, in the state the provider is in when the promise
  settles: \<open>this.version\<close> is read then.
\<close>

definition save_resume :: "set_result \<Rightarrow> 'd provider \<Rightarrow> effect list" where
  "save_resume r s =
     (case r of
        Set_rejected error \<Rightarrow> save_catch error s
      | Set_resolved \<Rightarrow> [Emit (Save (version s))])"

definition onDocumentUpdate :: "'d collab \<Rightarrow> bytes \<Rightarrow> origin \<Rightarrow> 'd provider \<Rightarrow> effect list" where
  "onDocumentUpdate C update origin s =
     (if origin \<noteq> This then
        Log ''document updated locally, broadcasting update to peers'' #
        emit_message update s @ save C s
      else [])"

definition onAwarenessUpdate ::
  "'d collab \<Rightarrow> nat list \<Rightarrow> nat list \<Rightarrow> nat list \<Rightarrow> origin \<Rightarrow> 'd provider \<Rightarrow> effect list" where
  "onAwarenessUpdate C added updated removed origin s =
     (let changedClients = added @ updated @ removed;
          awarenessUpdate = A_encodeAwarenessUpdate C (states (awareness s)) changedClients
      in emit_awareness awarenessUpdate s)"

text \<open>
  The document and the awareness instance call every listener of their \<open>update\<close> event.
  Only the function objects bound at lines 268 and 269 run the provider's handlers;
  what any other listener does is not the provider's.
\<close>

definition doc_fire_update :: "'d collab \<Rightarrow> bytes \<Rightarrow> origin \<Rightarrow> 'd provider \<Rightarrow> effect list" where
  "doc_fire_update C update origin s =
     concat (map (\<lambda>f. if f = OnDocumentUpdate_bound then onDocumentUpdate C update origin s else [])
                 (doc_observers (doc s)))"

definition aw_fire_update ::
  "'d collab \<Rightarrow> nat list \<Rightarrow> nat list \<Rightarrow> nat list \<Rightarrow> origin \<Rightarrow> 'd provider \<Rightarrow> effect list" where
  "aw_fire_update C added updated removed origin s =
     concat (map (\<lambda>f. if f = OnAwarenessUpdate_bound
                      then onAwarenessUpdate C added updated removed origin s else [])
                 (aw_observers (awareness s)))"

text \<open>
  \<open>applyUpdate\<close> counts the version up before it calls \<open>Y.applyUpdate\<close>, so the count
  stays when the library throws. The first component is the exception, if any.
\<close>

definition applyUpdate ::
  "'d collab \<Rightarrow> bytes \<Rightarrow> origin \<Rightarrow> 'd provider \<Rightarrow> string option \<times> 'd provider \<times> effect list" where
  "applyUpdate C update origin s =
     (let s1 = s\<lparr>version := version s + 1\<rparr> in
      case Y_applyUpdate C (ystate (doc s1)) update of
        Throws err \<Rightarrow> (Some err, s1, [Y_apply update origin])
      | Applied d ev \<Rightarrow>
          (let s2 = s1\<lparr>doc := (doc s1)\<lparr>ystate := d\<rparr>\<rparr> in
           (None, s2,
            Y_apply update origin #
            (case ev of None \<Rightarrow> [] | Some u \<Rightarrow> doc_fire_update C u origin s2))))"

definition onMessage :: "'d collab \<Rightarrow> bytes \<Rightarrow> origin \<Rightarrow> 'd provider \<Rightarrow> 'd provider \<times> effect list" where
  "onMessage C message origin s =
     (if \<not> fst (isOnline None s) then (s, [])
      else
        case applyUpdate C message This s of
          (Some err, s', t) \<Rightarrow> (s', t @ [Log err])
        | (None, s', t) \<Rightarrow> (s', t))"

text \<open>The setter of \<open>synced\<close>.\<close>

definition set_synced :: "bool \<Rightarrow> 'd provider \<Rightarrow> 'd provider \<times> effect list" where
  "set_synced state s =
     (if synced_field s \<noteq> state then
        (s\<lparr>synced_field := state\<rparr>,
         [Log (''setting sync state to '' @ (if state then ''true'' else ''false'')),
          Emit (Synced state), Emit (Sync state)])
      else (s, []))"

text \<open>
  \<open>awarenessProtocol.removeAwarenessStates(awareness, clients, origin)\<close>: the loop deletes
  each listed client that has an entry and collects it; when something was removed the
  awareness instance fires \<open>update\<close> with \<open>{added: [], updated: [], removed}\<close> and the
  origin it was given. (The clock it keeps per client is left out.)
\<close>

fun remove_loop ::
  "(nat \<times> string) list \<Rightarrow> nat list \<Rightarrow> nat list \<Rightarrow> (nat \<times> string) list \<times> nat list" where
  "remove_loop st [] removed = (st, removed)"
| "remove_loop st (c # cs) removed =
     (if map_of st c \<noteq> None
      then remove_loop (filter (\<lambda>kv. fst kv \<noteq> c) st) cs (removed @ [c])
      else remove_loop st cs removed)"

definition removeAwarenessStates ::
  "'d collab \<Rightarrow> nat list \<Rightarrow> origin \<Rightarrow> 'd provider \<Rightarrow> 'd provider \<times> effect list" where
  "removeAwarenessStates C clients origin s =
     (let (st, removed) = remove_loop (states (awareness s)) clients [];
          s' = s\<lparr>awareness := (awareness s)\<lparr>states := st\<rparr>\<rparr>
      in (s', if removed \<noteq> [] then aw_fire_update C [] [] removed origin s' else []))"

definition onDisconnect :: "'d collab \<Rightarrow> 'd provider \<Rightarrow> 'd provider \<times> effect list" where
  "onDisconnect C s =
     (let (s1, t1) = set_synced False s;
          (_, s2) = isOnline (Some False) s1;
          (online, s3) = isOnline None s2;
          t2 = (if online then [Emit (Status ''disconnected'')] else []);
          clients = filter (\<lambda>client. client \<noteq> clientID (doc s3))
                           (map fst (states (awareness s3)));
          (s4, t3) = removeAwarenessStates C clients This s3
      in (s4,
          [Log ''disconnected''] @ t1 @ [Log ''set connected flag to false''] @ t2 @ t3))"

text \<open>
  \<open>onConnect\<close> up to its \<open>await\<close> (lines 92 to 94), which stands outside every
  \<open>try\<close>. With no store object, \<open>this.store.get\<close> throws a \<open>TypeError\<close> and the
  promise of \<open>onConnect\<close> rejects at once.
\<close>

definition getLocalState :: "awareness_t \<Rightarrow> string option" where
  "getLocalState a = map_of (states a) (aw_clientID a)"

definition onConnect :: "'d provider \<Rightarrow> effect list" where
  "onConnect s =
     Log ''connected'' #
     (case store s of
        None \<Rightarrow> [Unhandled_rejection ''TypeError'']
      | Some st \<Rightarrow> [Store_get, Awaiting (Connect_job (store_get st))])"

text \<open>
  \<open>onConnect\<close> after its \<open>await\<close> (lines 94 to 118). When the promise of
  \<open>store.get\<close> rejects, the \<open>await\<close> throws, and the promise of \<open>onConnect\<close> rejects.
\<close>

definition onConnect_resume ::
  "'d collab \<Rightarrow> get_result \<Rightarrow> 'd provider \<Rightarrow> 'd provider \<times> effect list" where
  "onConnect_resume C r s =
     (case r of
        Get_rejected reason \<Rightarrow> (s, [Unhandled_rejection reason])
      | Get_resolved data \<Rightarrow>
          (let (s1, t1) =
                 (case data of
                    None \<Rightarrow> (s, [])
                  | Some d \<Rightarrow>
                      (case applyUpdate C d Undefined s of
                         (Some err, s', t) \<Rightarrow> (s', Log ''applying update to yjs'' # t @ [Log err])
                       | (None, s', t) \<Rightarrow> (s', Log ''applying update to yjs'' # t)));
               (_, s2) = isOnline (Some True) s1;
               t2 = (if getLocalState (awareness s2) \<noteq> None
                     then emit_awareness
                            (A_encodeAwarenessUpdate C (states (awareness s2)) [clientID (doc s2)]) s2
                     else [])
           in (s2,
               [Log ''retrieved data from store''] @ t1 @
               [Log ''setting connected flag to true'', Emit (Status ''connected'')] @ t2)))"

text \<open>The host runs the rest of a suspended method when its promise has settled.\<close>

definition resume :: "'d collab \<Rightarrow> job \<Rightarrow> 'd provider \<Rightarrow> 'd provider \<times> effect list" where
  "resume C j s =
     (case j of
        Save_job r \<Rightarrow> (s, save_resume r s)
      | Connect_job r \<Rightarrow> onConnect_resume C r s)"

text \<open>
  \<open>emit('connect', this)\<close> and \<open>emit('disconnect', this)\<close> with the listeners of lines
  217 and 218.
\<close>

definition emit_connect :: "'d provider \<Rightarrow> 'd provider \<times> effect list" where
  "emit_connect s = (s, Emit Connect # onConnect s)"

definition emit_disconnect :: "'d collab \<Rightarrow> 'd provider \<Rightarrow> 'd provider \<times> effect list" where
  "emit_disconnect C s = (let (s', t) = onDisconnect C s in (s', Emit Disconnect # t))"

text \<open>
  The callbacks \<open>connect\<close> binds on the channel (lines 137 to 164), by the event the
  transport delivers. \<open>Subscription_error\<close> carries \<open>err.status\<close> when it is a number.
  The callback of \<open>client-awareness\<close> only applies a presence update to the awareness
  instance and is left out. In the two error callbacks an exception of
  \<open>emit('error', this)\<close> leaves the callback, so the line after it is not reached.
\<close>

datatype transport_event =
    Client_message bytes
  | Pusher_error
  | Subscription_error "int option"
  | Subscription_succeeded

definition channel_event ::
  "'d collab \<Rightarrow> transport_event \<Rightarrow> 'd provider \<Rightarrow> 'd provider \<times> effect list" where
  "channel_event C ev s =
     (case ev of
        Client_message data \<Rightarrow> onMessage C data This s
      | Pusher_error \<Rightarrow>
          (case emit_error Provider s of
             Inl exn \<Rightarrow> (s, [Log ''PUSHER_ERROR'', Uncaught exn])
           | Inr t1 \<Rightarrow>
               (let (s', t2) = emit_disconnect C s
                in (s', [Log ''PUSHER_ERROR''] @ t1 @ t2)))
      | Subscription_error status \<Rightarrow>
          (if status = Some 403 then
             (case emit_error Provider s of
                Inl exn \<Rightarrow> (s, [Log ''PUSHER AUTH ERROR'', Uncaught exn])
              | Inr t1 \<Rightarrow>
                  (let (s', t2) = emit_disconnect C s
                   in (s', [Log ''PUSHER AUTH ERROR''] @ t1 @ t2)))
           else (s, []))
      | Subscription_succeeded \<Rightarrow>
          (let (s', t) = emit_connect s
           in (s', Log ''PUSHER_SUBSCRIPTION_SUCCEEDED'' # t)))"

text \<open>The callback of \<open>setInterval\<close> (lines 239 to 247).\<close>

definition resync_tick :: "'d collab \<Rightarrow> 'd provider \<Rightarrow> effect list" where
  "resync_tick C s =
     Log ''resyncing (resync interval elapsed)'' #
     emit_message (Y_encodeStateAsUpdate C (ystate (doc s))) s @
     (case channel s of
        None \<Rightarrow> []
      | Some c \<Rightarrow> [Trigger c ''client-message'' (Y_encodeStateAsUpdate C (ystate (doc s)))])"

section \<open>Construction and teardown\<close>

text \<open>
  \<open>new awarenessProtocol.Awareness(doc)\<close> takes the document's client id and sets the
  local state to the empty object.
\<close>

definition new_Awareness :: "'d ydoc \<Rightarrow> awareness_t" where
  "new_Awareness d =
     \<lparr>aw_clientID = clientID d, states = [(clientID d, ''{}'')], aw_observers = []\<rparr>"

text \<open>
  Lines 227 to 248. A number is truthy unless it is zero or \<open>NaN\<close>; \<open>false\<close> and
  \<open>undefined\<close> are falsy. In \<open>resyncInterval < 3000\<close> the value \<open>false\<close> counts as
  \<open>0\<close> and \<open>undefined\<close> as \<open>NaN\<close>. The result of \<open>resync_setup\<close> is the delay
  argument of the \<open>setInterval\<close> call, if there is one, or the exception.
\<close>

fun truthy :: "resync \<Rightarrow> bool" where
  "truthy (Resync_number (Num q)) = (q \<noteq> 0)"
| "truthy (Resync_number NaN) = False"
| "truthy (Resync_number Infinity) = True"
| "truthy (Resync_number Neg_Infinity) = True"
| "truthy Resync_false = False"
| "truthy Resync_undefined = False"

fun less_than_3000 :: "resync \<Rightarrow> bool" where
  "less_than_3000 (Resync_number (Num q)) = (q < 3000)"
| "less_than_3000 (Resync_number NaN) = False"
| "less_than_3000 (Resync_number Infinity) = False"
| "less_than_3000 (Resync_number Neg_Infinity) = True"
| "less_than_3000 Resync_false = True"
| "less_than_3000 Resync_undefined = False"

text \<open>\<open>this.config.resyncInterval || 5000\<close>\<close>

definition or_5000 :: "resync \<Rightarrow> number" where
  "or_5000 r = (case r of Resync_number n \<Rightarrow> (if truthy r then n else Num 5000) | _ \<Rightarrow> Num 5000)"

definition resync_setup :: "resync \<Rightarrow> string + number option" where
  "resync_setup r =
     (if truthy r \<or> r = Resync_undefined then
        if truthy r \<and> less_than_3000 r then Inl ''resync interval of less than 3 seconds''
        else Inr (Some (or_5000 r))
      else Inr None)"

text \<open>
  The host's \<open>setInterval\<close> hands out a new handle and arms a timer whose period it
  derives from the delay argument; \<open>clearInterval\<close> disarms the timer of a handle. A
  handle is an object under Node and a positive number in a browser, so it is truthy.
\<close>

definition new_handle :: "(nat \<times> int) list \<Rightarrow> nat" where
  "new_handle ivs = Suc (fold max (map fst ivs) 0)"

definition setInterval :: "number \<Rightarrow> host_t \<Rightarrow> nat \<times> host_t" where
  "setInterval delay h =
     (new_handle (intervals h),
      h\<lparr>intervals := intervals h @ [(new_handle (intervals h), timer_delay h delay)]\<rparr>)"

definition clearInterval :: "nat \<Rightarrow> host_t \<Rightarrow> host_t" where
  "clearInterval k h = h\<lparr>intervals := filter (\<lambda>kp. fst kp \<noteq> k) (intervals h)\<rparr>"

text \<open>
  Node's rule for the delay of a timer, as its documentation states it: a delay that
  is larger than 2147483647, less than 1 or \<open>NaN\<close> is set to 1, and a delay that is not
  a whole number is truncated.
\<close>

definition node_delay :: "number \<Rightarrow> int" where
  "node_delay n =
     (case n of
        Num q \<Rightarrow> (if 1 \<le> q \<and> q \<le> 2147483647 then \<lfloor>q\<rfloor> else 1)
      | _ \<Rightarrow> 1)"

text \<open>
  Lines 250 to 257. \<open>addEventListener\<close> ignores a listener that is registered already;
  \<open>process.on\<close> gets a new arrow function each time.
\<close>

definition add_unload_hook :: "host_t \<Rightarrow> host_t" where
  "add_unload_hook h =
     (case kind h of
        Browser \<Rightarrow>
          (if RemoveSelfFromAwarenessOnUnload \<in> set (hooks h) then h
           else h\<lparr>hooks := hooks h @ [RemoveSelfFromAwarenessOnUnload]\<rparr>)
      | Node \<Rightarrow> h\<lparr>hooks := hooks h @ [Exit_arrow_256]\<rparr>
      | Bare \<Rightarrow> h)"

definition connect ::
  "(string \<Rightarrow> channel_handle option) \<Rightarrow> 'd provider \<Rightarrow> 'd provider \<times> effect list" where
  "connect subscribe s =
     (let ch = subscribe (cfg_channel (config s)) in
      (s\<lparr>channel := ch\<rparr>,
       Subscribe (cfg_channel (config s)) #
       (case ch of
          None \<Rightarrow> []
        | Some c \<Rightarrow>
            map (Bind c)
              [''client-message'', ''client-awareness'', ''pusher:error'',
               ''pusher:subscription_error'', ''pusher:subscription_succeeded''])))"

text \<open>
  The constructor, from the host it runs in, the document, \<open>pusher.subscribe\<close> and the
  configuration. \<open>Inl\<close> is the exception it throws. It takes no store and assigns none
  to the field \<open>store\<close>, and it attaches no listener to \<open>error\<close>.
\<close>

definition constructor ::
  "host_t \<Rightarrow> 'd ydoc \<Rightarrow> (string \<Rightarrow> channel_handle option) \<Rightarrow> config_t \<Rightarrow>
   string + ('d provider \<times> effect list)" where
  "constructor h d subscribe cfg =
     (case resync_setup (cfg_resyncInterval cfg) of
        Inl err \<Rightarrow> Inl err
      | Inr timer \<Rightarrow>
          (let (handle, h1) =
                 (case timer of
                    None \<Rightarrow> (None, h)
                  | Some delay \<Rightarrow> (Some (fst (setInterval delay h)), snd (setInterval delay h)));
               t1 = (case timer of
                       None \<Rightarrow> []
                     | Some delay \<Rightarrow> [Log ''setting resync interval to every'', Set_interval delay]);
               s0 = \<lparr>awareness =
                       (case cfg_awareness cfg of Some a \<Rightarrow> a | None \<Rightarrow> new_Awareness d),
                     connected = False, channel = None, synced_field = False,
                     resyncInterval = handle, version = 0, store = None, doc = d,
                     config = cfg, host = add_unload_hook h1, error_listener = False\<rparr>;
               (s1, t2) = connect subscribe s0;
               s2 = s1\<lparr>doc := (doc s1)\<lparr>doc_observers :=
                                  doc_observers (doc s1) @ [OnDocumentUpdate_bound]\<rparr>\<rparr>;
               s3 = s2\<lparr>awareness := (awareness s2)\<lparr>aw_observers :=
                                  aw_observers (awareness s2) @ [OnAwarenessUpdate_bound]\<rparr>\<rparr>
           in Inr (s3,
                   [Log ''constructor initializing'', Log ''connecting to Pingerchips Realtime'']
                   @ t1 @ t2)))"

text \<open>
  \<open>this.channel.disconnect()\<close> is a method call on a field that may be \<open>null\<close>; on
  \<open>null\<close> it throws a \<open>TypeError\<close>.
\<close>

definition channel_disconnect :: "channel_handle option \<Rightarrow> string + effect list" where
  "channel_disconnect ch =
     (case ch of None \<Rightarrow> Inl ''TypeError'' | Some c \<Rightarrow> Inr [Channel_disconnect c])"

definition disconnect :: "'d provider \<Rightarrow> string + ('d provider \<times> effect list)" where
  "disconnect s =
     (if channel s \<noteq> None then
        (case channel_disconnect (channel s) of
           Inl err \<Rightarrow> Inl err
         | Inr t \<Rightarrow> Inr (s\<lparr>channel := None\<rparr>, t))
      else Inr (s, []))"

text \<open>
  Lines 339 to 346. \<open>removeEventListener\<close> and \<open>off\<close> remove the function object they
  are given, and nothing when it is not registered.
\<close>

definition remove_unload_hook :: "host_t \<Rightarrow> host_t" where
  "remove_unload_hook h =
     (case kind h of
        Browser \<Rightarrow> h\<lparr>hooks := removeAll RemoveSelfFromAwarenessOnUnload (hooks h)\<rparr>
      | Node \<Rightarrow> h\<lparr>hooks := remove1 Exit_arrow_345 (hooks h)\<rparr>
      | Bare \<Rightarrow> h)"

definition destroy :: "'d provider \<Rightarrow> string + ('d provider \<times> effect list)" where
  "destroy s =
     (let (s1, t1) =
            (case resyncInterval s of
               None \<Rightarrow> (s, [])
             | Some k \<Rightarrow> (s\<lparr>host := clearInterval k (host s)\<rparr>, [Clear_interval k]));
          s2 = s1\<lparr>host := remove_unload_hook (host s1)\<rparr>;
          s3 = s2\<lparr>awareness := (awareness s2)\<lparr>aw_observers :=
                             removeAll OnAwarenessUpdate (aw_observers (awareness s2))\<rparr>\<rparr>;
          s4 = s3\<lparr>doc := (doc s3)\<lparr>doc_observers :=
                             removeAll OnDocumentUpdate (doc_observers (doc s3))\<rparr>\<rparr>
      in if channel s4 \<noteq> None then
           (case disconnect s4 of
              Inl err \<Rightarrow> Inl err
            | Inr (s5, t2) \<Rightarrow> Inr (s5, Log ''destroying'' # t1 @ t2))
         else Inr (s4, Log ''destroying'' # t1))"

section \<open>Observations on a trace\<close>

text \<open>
  The three outbound effects of document sync: the \<open>message\<close> signal, the
  \<open>client-message\<close> event on the channel, and a \<open>set\<close> call on the store.
\<close>

fun is_message_signal :: "effect \<Rightarrow> bool" where
  "is_message_signal (Emit (Message u)) = True"
| "is_message_signal _ = False"

fun is_channel_message :: "effect \<Rightarrow> bool" where
  "is_channel_message (Trigger c e u) = (e = ''client-message'')"
| "is_channel_message _ = False"

fun is_store_set :: "effect \<Rightarrow> bool" where
  "is_store_set (Store_set u) = True"
| "is_store_set _ = False"

fun is_status_signal :: "effect \<Rightarrow> bool" where
  "is_status_signal (Emit (Status x)) = True"
| "is_status_signal _ = False"

fun is_set_interval :: "effect \<Rightarrow> bool" where
  "is_set_interval (Set_interval delay) = True"
| "is_set_interval _ = False"

fun is_log :: "effect \<Rightarrow> bool" where
  "is_log (Log x) = True"
| "is_log _ = False"

definition count_of :: "(effect \<Rightarrow> bool) \<Rightarrow> effect list \<Rightarrow> nat" where
  "count_of P t = length (filter P t)"

text \<open>A trace without its logged lines: the signals, calls and exceptions.\<close>

fun non_log :: "effect list \<Rightarrow> effect list" where
  "non_log [] = []"
| "non_log (e # t) = (if is_log e then non_log t else e # non_log t)"

text \<open>
  The client ids \<open>onDisconnect\<close> passes to \<open>removeAwarenessStates\<close>: the keys of the
  presence map other than \<open>doc.clientID\<close> (lines 304 to 306).
\<close>

definition non_local_clients :: "'d provider \<Rightarrow> nat list" where
  "non_local_clients s =
     filter (\<lambda>client. client \<noteq> clientID (doc s)) (map fst (states (awareness s)))"

text \<open>The transport delivers a sequence of remote document messages, one after the other.\<close>

fun deliver :: "'d collab \<Rightarrow> bytes list \<Rightarrow> 'd provider \<Rightarrow> 'd provider \<times> effect list" where
  "deliver C [] s = (s, [])"
| "deliver C (m # ms) s =
     (let (s1, t1) = channel_event C (Client_message m) s;
          (s2, t2) = deliver C ms s1
      in (s2, t1 @ t2))"

section \<open>A concrete session\<close>

text \<open>
  A small instance of the libraries, to run the handlers on: the document state is
  the list of the updates applied so far, an empty update is malformed, and an update
  applied before changes nothing.
\<close>

definition example_collab :: "bytes list collab" where
  "example_collab =
     \<lparr>Y_applyUpdate =
        (\<lambda>d u. if u = [] then Throws ''malformed update''
               else if u \<in> set d then Applied d None
               else Applied (d @ [u]) (Some u)),
      Y_encodeStateAsUpdate = concat,
      A_encodeAwarenessUpdate =
        (\<lambda>st cl. concat (map (\<lambda>c. case map_of st c of None \<Rightarrow> [c, 0] | Some v \<Rightarrow> [c, 1]) cl))\<rparr>"

definition working_store :: store_t where
  "working_store = \<lparr>store_get = Get_resolved None, store_set = (\<lambda>u. Set_resolved)\<rparr>"

definition failing_store :: store_t where
  "failing_store =
     \<lparr>store_get = Get_rejected ''store unavailable'',
      store_set = (\<lambda>u. Set_rejected ''store unavailable'')\<rparr>"

definition example_host :: host_t where
  "example_host = \<lparr>kind = Node, hooks = [], intervals = [], timer_delay = node_delay\<rparr>"

definition example_doc :: "bytes list ydoc" where
  "example_doc = \<lparr>ystate = [], clientID = 1, doc_observers = []\<rparr>"

definition example_subscribe :: "string \<Rightarrow> channel_handle option" where
  "example_subscribe name = Some name"

definition example_config :: config_t where
  "example_config =
     \<lparr>cfg_channel = ''room'', cfg_awareness = None, cfg_resyncInterval = Resync_undefined\<rparr>"

text \<open>The provider this construction yields, and the same provider after \<open>destroy()\<close>.\<close>

definition example_provider :: "bytes list provider" where
  "example_provider =
     \<lparr>awareness = \<lparr>aw_clientID = 1, states = [(1, ''{}'')],
                    aw_observers = [OnAwarenessUpdate_bound]\<rparr>,
      connected = False, channel = Some ''room'', synced_field = False,
      resyncInterval = Some 1, version = 0, store = None,
      doc = \<lparr>ystate = [], clientID = 1, doc_observers = [OnDocumentUpdate_bound]\<rparr>,
      config = example_config,
      host = \<lparr>kind = Node, hooks = [Exit_arrow_256], intervals = [(1, 5000)],
              timer_delay = node_delay\<rparr>,
      error_listener = False\<rparr>"

definition example_destroyed :: "bytes list provider" where
  "example_destroyed =
     example_provider\<lparr>channel := None,
                      host := \<lparr>kind = Node, hooks = [Exit_arrow_256], intervals = [],
                               timer_delay = node_delay\<rparr>\<rparr>"

text \<open>
  The constructed provider after a caller has set the public flag with
  \<open>isOnline(true)\<close>, with the presence of a second participant.
\<close>

definition example_online :: "bytes list provider" where
  "example_online =
     example_provider\<lparr>connected := True, synced_field := True,
                      awareness := \<lparr>aw_clientID = 1, states = [(1, ''{}''), (2, ''ann'')],
                                     aw_observers = [OnAwarenessUpdate_bound]\<rparr>\<rparr>"

text \<open>
  The constructed provider with a store object put into its field \<open>store\<close> and a
  listener attached to \<open>error\<close>, neither of which the class does itself.
\<close>

definition with_store :: "store_t \<Rightarrow> 'd provider \<Rightarrow> 'd provider" where
  "with_store st s = s\<lparr>store := Some st, error_listener := True\<rparr>"

section \<open>Basic facts about the handlers\<close>

lemma isOnline_read: "isOnline None s = (connected s, s)"
  by (simp add: isOnline_def)

lemma onDocumentUpdate_This: "onDocumentUpdate C u This s = []"
  by (simp add: onDocumentUpdate_def)

lemma doc_fire_update_This: "doc_fire_update C u This s = []"
  by (auto simp: doc_fire_update_def onDocumentUpdate_This)

lemma onMessage_offline: "\<not> connected s \<Longrightarrow> onMessage C m og s = (s, [])"
  by (simp add: onMessage_def isOnline_read)

lemma onMessage_online:
  "connected s \<Longrightarrow>
   onMessage C m og s =
     (case Y_applyUpdate C (ystate (doc s)) m of
        Throws err \<Rightarrow> (s\<lparr>version := version s + 1\<rparr>, [Y_apply m This, Log err])
      | Applied d ev \<Rightarrow>
          (s\<lparr>version := version s + 1, doc := (doc s)\<lparr>ystate := d\<rparr>\<rparr>, [Y_apply m This]))"
  by (simp add: onMessage_def isOnline_read applyUpdate_def Let_def doc_fire_update_This
           split: applied.splits option.splits)

lemma onMessage_quiet:
  "filter is_message_signal (snd (onMessage C m og s)) = [] \<and>
   filter is_channel_message (snd (onMessage C m og s)) = [] \<and>
   filter is_store_set (snd (onMessage C m og s)) = []"
  by (cases "connected s") (simp_all add: onMessage_offline onMessage_online split: applied.splits)

lemma deliver_Cons:
  "deliver C (m # ms) s =
     (fst (deliver C ms (fst (onMessage C m This s))),
      snd (onMessage C m This s) @ snd (deliver C ms (fst (onMessage C m This s))))"
  by (simp add: channel_event_def case_prod_beta)

lemma deliver_quiet:
  "filter is_message_signal (snd (deliver C ms s)) = [] \<and>
   filter is_channel_message (snd (deliver C ms s)) = [] \<and>
   filter is_store_set (snd (deliver C ms s)) = []"
proof (induction ms arbitrary: s)
  case Nil
  show ?case by simp
next
  case (Cons m ms)
  from onMessage_quiet [of C m This s] Cons.IH [of "fst (onMessage C m This s)"]
  show ?case by (simp add: deliver_Cons del: deliver.simps)
qed

subsection \<open>The loop of \<open>removeAwarenessStates\<close>\<close>





subsection \<open>\<open>onDisconnect\<close> and \<open>destroy\<close>\<close>

lemma onDisconnect_unfold:
  "onDisconnect C s =
     (let s' = s\<lparr>synced_field := False, connected := False,
                 awareness := (awareness s)\<lparr>states :=
                    fst (remove_loop (states (awareness s)) (non_local_clients s) [])\<rparr>\<rparr>;
          removed = snd (remove_loop (states (awareness s)) (non_local_clients s) [])
      in (s',
          [Log ''disconnected''] @ snd (set_synced False s) @
          [Log ''set connected flag to false''] @
          (if removed \<noteq> [] then aw_fire_update C [] [] removed This s' else [])))"
  by (cases s; cases "synced_field s")
     (simp_all add: onDisconnect_def set_synced_def isOnline_def removeAwarenessStates_def
                    non_local_clients_def Let_def case_prod_beta)

lemma onDisconnect_flags:
  "\<not> connected (fst (onDisconnect C s)) \<and> \<not> synced_field (fst (onDisconnect C s))"
  by (simp add: onDisconnect_unfold Let_def)



lemma aw_fire_update_no_status: "filter is_status_signal (aw_fire_update C a u r og s) = []"
  by (auto simp: aw_fire_update_def onAwarenessUpdate_def emit_awareness_def Let_def
                 filter_concat split: option.splits)

lemma onDisconnect_logs:
  "Log ''PUSHER AUTH ERROR'' \<notin> set (snd (onDisconnect C s))"
  by (cases "synced_field s")
     (auto simp: onDisconnect_def set_synced_def isOnline_def removeAwarenessStates_def
                 aw_fire_update_def onAwarenessUpdate_def emit_awareness_def
                 Let_def case_prod_beta split: option.splits if_splits)

lemma add_unload_hook_timers:
  "intervals (add_unload_hook h) = intervals h \<and> timer_delay (add_unload_hook h) = timer_delay h"
  by (simp add: add_unload_hook_def split: host_kind.splits)

lemma onDocumentUpdate_with_store:
  "origin \<noteq> This \<Longrightarrow> store s = Some st \<Longrightarrow>
   onDocumentUpdate C update origin s =
     [Log ''document updated locally, broadcasting update to peers'', Emit (Message update)] @
     (case channel s of None \<Rightarrow> [] | Some c \<Rightarrow> [Trigger c ''client-message'' update]) @
     [Store_set (Y_encodeStateAsUpdate C (ystate (doc s))),
      Awaiting (Save_job (store_set st (Y_encodeStateAsUpdate C (ystate (doc s)))))]"
  by (simp add: onDocumentUpdate_def emit_message_def save_def Let_def split: option.splits)

lemma constructor_store:
  "constructor h d sub cfg = Inr (s, t) \<Longrightarrow> store s = None \<and> \<not> error_listener s"
  by (auto simp: constructor_def connect_def Let_def case_prod_beta split: sum.splits)

section \<open>Document sync\<close>

text \<open>
  Claim C1 (echo suppression). A document update event whose origin is this provider
  makes \<open>onDocumentUpdate\<close> do nothing, while the same event with another origin runs
  the listener the constructor registered and emits one \<open>message\<close> signal.
  \<open>applyUpdate\<close> hands the update to \<open>Y.applyUpdate\<close>, and the event the document
  fires for it goes to the listeners with the origin \<open>applyUpdate\<close> was given. While
  the session is online, \<open>onMessage\<close> is \<open>applyUpdate\<close> with the origin \<open>this\<close>: the
  version is counted up, the document becomes what \<open>Y.applyUpdate\<close> yields, and the
  handler does nothing else but log a failure of the apply. The transport delivers a
  list of remote messages by calling \<open>onMessage\<close> for each in turn, and doing so adds
  no \<open>message\<close> signal, no \<open>client-message\<close> event on the channel and no call of
  \<open>store.set\<close> to a trace: the three counts stay what they were.
\<close>

theorem echo_suppression:
  "onDocumentUpdate C u This s = [] \<and>
   doc_fire_update C u This s = [] \<and>
   (og' \<noteq> This \<and> doc_observers (doc s) = [OnDocumentUpdate_bound] \<longrightarrow>
      doc_fire_update C u og' s = onDocumentUpdate C u og' s \<and>
      count_of is_message_signal (doc_fire_update C u og' s) = 1) \<and>
   (Y_applyUpdate C (ystate (doc s)) m = Applied d (Some u) \<longrightarrow>
      applyUpdate C m og' s =
        (None, s\<lparr>version := version s + 1, doc := (doc s)\<lparr>ystate := d\<rparr>\<rparr>,
         Y_apply m og' #
         doc_fire_update C u og' (s\<lparr>version := version s + 1, doc := (doc s)\<lparr>ystate := d\<rparr>\<rparr>))) \<and>
   (connected s \<longrightarrow>
      onMessage C m og s =
        (case applyUpdate C m This s of
           (Some err, s', t') \<Rightarrow> (s', t' @ [Log err])
         | (None, s', t') \<Rightarrow> (s', t')) \<and>
      onMessage C m og s =
        (case Y_applyUpdate C (ystate (doc s)) m of
           Throws err \<Rightarrow> (s\<lparr>version := version s + 1\<rparr>, [Y_apply m This, Log err])
         | Applied d' ev \<Rightarrow>
             (s\<lparr>version := version s + 1, doc := (doc s)\<lparr>ystate := d'\<rparr>\<rparr>,
              [Y_apply m This]))) \<and>
   deliver C [] s = (s, []) \<and>
   deliver C (m # ms) s =
     (fst (deliver C ms (fst (onMessage C m This s))),
      snd (onMessage C m This s) @ snd (deliver C ms (fst (onMessage C m This s)))) \<and>
   count_of is_message_signal (t @ snd (deliver C ms s)) = count_of is_message_signal t \<and>
   count_of is_channel_message (t @ snd (deliver C ms s)) = count_of is_channel_message t \<and>
   count_of is_store_set (t @ snd (deliver C ms s)) = count_of is_store_set t"
proof -
  have fire: "og' \<noteq> This \<and> doc_observers (doc s) = [OnDocumentUpdate_bound] \<longrightarrow>
      doc_fire_update C u og' s = onDocumentUpdate C u og' s \<and>
      count_of is_message_signal (doc_fire_update C u og' s) = 1"
    by (simp add: doc_fire_update_def onDocumentUpdate_def emit_message_def save_def
                  save_catch_def emit_error_def count_of_def Let_def
             split: option.splits)
  have app: "Y_applyUpdate C (ystate (doc s)) m = Applied d (Some u) \<longrightarrow>
      applyUpdate C m og' s =
        (None, s\<lparr>version := version s + 1, doc := (doc s)\<lparr>ystate := d\<rparr>\<rparr>,
         Y_apply m og' #
         doc_fire_update C u og' (s\<lparr>version := version s + 1, doc := (doc s)\<lparr>ystate := d\<rparr>\<rparr>))"
    by (simp add: applyUpdate_def Let_def)
  have msg: "connected s \<longrightarrow>
      onMessage C m og s =
        (case applyUpdate C m This s of
           (Some err, s', t') \<Rightarrow> (s', t' @ [Log err])
         | (None, s', t') \<Rightarrow> (s', t'))"
    by (simp add: onMessage_def isOnline_read)
  have cnt:
    "count_of is_message_signal (t @ snd (deliver C ms s)) = count_of is_message_signal t \<and>
     count_of is_channel_message (t @ snd (deliver C ms s)) = count_of is_channel_message t \<and>
     count_of is_store_set (t @ snd (deliver C ms s)) = count_of is_store_set t"
    using deliver_quiet [of C ms s] by (simp add: count_of_def)
  have nil: "deliver C [] s = (s, [])" by simp
  from fire app msg cnt nil onMessage_online [of s C m og] deliver_Cons [of C m ms s]
       onDocumentUpdate_This [of C u s] doc_fire_update_This [of C u s]
  show ?thesis by blast
qed

theorem echo_suppression_witness:
  "connected example_online \<and>
   Y_applyUpdate example_collab (ystate (doc example_online)) [1] = Applied [[1]] (Some [1]) \<and>
   onMessage example_collab [1] This example_online =
     (example_online\<lparr>version := 1, doc := (doc example_online)\<lparr>ystate := [[1]]\<rparr>\<rparr>,
      [Y_apply [1] This]) \<and>
   snd (snd (applyUpdate example_collab [1] Undefined example_online)) =
     Y_apply [1] Undefined #
     doc_fire_update example_collab [1] Undefined
       (example_online\<lparr>version := 1, doc := (doc example_online)\<lparr>ystate := [[1]]\<rparr>\<rparr>) \<and>
   count_of is_message_signal
     (doc_fire_update example_collab [1] Undefined
        (example_online\<lparr>version := 1, doc := (doc example_online)\<lparr>ystate := [[1]]\<rparr>\<rparr>)) = 1 \<and>
   ystate (doc (fst (deliver example_collab [[1], [2], [], [1]] example_online))) = [[1], [2]] \<and>
   version (fst (deliver example_collab [[1], [2], [], [1]] example_online)) = 4 \<and>
   count_of is_message_signal (snd (deliver example_collab [[1], [2], [], [1]] example_online)) = 0 \<and>
   count_of is_channel_message (snd (deliver example_collab [[1], [2], [], [1]] example_online)) = 0 \<and>
   count_of is_store_set (snd (deliver example_collab [[1], [2], [], [1]] example_online)) = 0"
proof -
  let ?s' = "example_online\<lparr>version := 1, doc := (doc example_online)\<lparr>ystate := [[1]]\<rparr>\<rparr>"
  have c: "connected example_online"
    by (simp add: example_online_def)
  have a: "Y_applyUpdate example_collab (ystate (doc example_online)) [1] = Applied [[1]] (Some [1])"
    by (simp add: example_collab_def example_online_def example_provider_def)
  have v: "example_online\<lparr>version := version example_online + 1,
                           doc := (doc example_online)\<lparr>ystate := [[1]]\<rparr>\<rparr> = ?s'"
    by (simp add: example_online_def example_provider_def)
  have o: "Undefined \<noteq> This \<and> doc_observers (doc ?s') = [OnDocumentUpdate_bound]"
    by (simp add: example_online_def example_provider_def)
  note h = echo_suppression [where C = example_collab and u = "[1]" and s = example_online
             and m = "[1]" and og = This and og' = Undefined and d = "[[1]]"
             and ms = "[[2], [], [1]]" and t = "[]"]
  note h' = echo_suppression [where C = example_collab and u = "[1]" and s = ?s'
             and m = "[1]" and og = This and og' = Undefined and d = "[[1]]"
             and ms = "[[1], [2], [], [1]]" and t = "[]"]
  note h'' = echo_suppression [where C = example_collab and u = "[1]" and s = example_online
             and m = "[1]" and og = This and og' = Undefined and d = "[[1]]"
             and ms = "[[1], [2], [], [1]]" and t = "[]"]
  from h c have "onMessage example_collab [1] This example_online =
        (case Y_applyUpdate example_collab (ystate (doc example_online)) [1] of
           Throws err \<Rightarrow> (example_online\<lparr>version := version example_online + 1\<rparr>,
                          [Y_apply [1] This, Log err])
         | Applied d' ev \<Rightarrow>
             (example_online\<lparr>version := version example_online + 1,
                             doc := (doc example_online)\<lparr>ystate := d'\<rparr>\<rparr>,
              [Y_apply [1] This]))"
    by blast
  with a v have m: "onMessage example_collab [1] This example_online = (?s', [Y_apply [1] This])"
    by simp
  from h a have "applyUpdate example_collab [1] Undefined example_online =
        (None, example_online\<lparr>version := version example_online + 1,
                               doc := (doc example_online)\<lparr>ystate := [[1]]\<rparr>\<rparr>,
         Y_apply [1] Undefined #
         doc_fire_update example_collab [1] Undefined
           (example_online\<lparr>version := version example_online + 1,
                           doc := (doc example_online)\<lparr>ystate := [[1]]\<rparr>\<rparr>))"
    by blast
  with v have ap: "snd (snd (applyUpdate example_collab [1] Undefined example_online)) =
     Y_apply [1] Undefined # doc_fire_update example_collab [1] Undefined ?s'"
    by simp
  from h' o have f: "count_of is_message_signal
     (doc_fire_update example_collab [1] Undefined ?s') = 1"
    by blast
  from h'' have n:
   "count_of is_message_signal (snd (deliver example_collab [[1], [2], [], [1]] example_online)) = 0 \<and>
    count_of is_channel_message (snd (deliver example_collab [[1], [2], [], [1]] example_online)) = 0 \<and>
    count_of is_store_set (snd (deliver example_collab [[1], [2], [], [1]] example_online)) = 0"
    by (simp add: count_of_def del: deliver.simps)
  have d: "ystate (doc (fst (deliver example_collab [[1], [2], [], [1]] example_online))) = [[1], [2]] \<and>
           version (fst (deliver example_collab [[1], [2], [], [1]] example_online)) = 4"
    by (simp add: channel_event_def onMessage_def isOnline_def applyUpdate_def Let_def
                  doc_fire_update_This example_collab_def example_online_def example_provider_def)
  from c a m ap f n d show ?thesis by blast
qed

text \<open>
  Claim C2 (offline discard). While the connected flag is false, \<open>onMessage\<close> returns at
  once: the whole state is unchanged, in particular the document and the version
  counter, and nothing is done to the outside. The message is kept nowhere, so
  whatever the transport delivers next, a later subscription success included, runs
  exactly as if the message had never arrived.
\<close>

theorem offline_discard:
  "\<not> connected s \<Longrightarrow>
   onMessage C message og s = (s, []) \<and>
   ystate (doc (fst (onMessage C message og s))) = ystate (doc s) \<and>
   version (fst (onMessage C message og s)) = version s \<and>
   channel_event C' ev (fst (onMessage C message og s)) = channel_event C' ev s"
  by (simp add: onMessage_offline)

theorem offline_discard_witness:
  "\<not> connected example_provider \<and>
   onMessage example_collab [1] This example_provider = (example_provider, [])"
  using offline_discard [of example_provider example_collab "[1]" This]
  by (simp add: example_provider_def)

text \<open>
  Claim C3 (local edit). The claim fails on the code where it counts one call of
  \<open>store.set\<close>. The constructor assigns nothing to the field \<open>store\<close>. So on the
  constructed provider, set online through \<open>isOnline(true)\<close>, a local document update
  emits the \<open>message\<close> signal with the raw delta once and sends it on the channel, but
  then \<open>this.store.set\<close> throws a \<open>TypeError\<close> inside the \<open>try\<close> of \<open>save\<close> and
  \<open>set\<close> is never called. The \<open>catch\<close> emits the exception as \<open>error\<close>: with no
  listener attached to \<open>error\<close> that throws again and the promise of \<open>save\<close> rejects,
  with a listener attached \<open>error\<close> and \<open>save\<close> are emitted.
\<close>

theorem local_edit_never_reaches_store:
  "map_sum id (store \<circ> fst)
     (constructor example_host example_doc example_subscribe example_config) = Inr None \<and>
   store example_online = None \<and>
   connected example_online \<and>
   onDocumentUpdate example_collab [7] Undefined example_online =
     [Log ''document updated locally, broadcasting update to peers'', Emit (Message [7]),
      Trigger ''room'' ''client-message'' [7], Unhandled_rejection ''TypeError''] \<and>
   count_of is_message_signal (onDocumentUpdate example_collab [7] Undefined example_online) = 1 \<and>
   count_of is_store_set (onDocumentUpdate example_collab [7] Undefined example_online) = 0 \<and>
   onDocumentUpdate example_collab [7] Undefined (example_online\<lparr>error_listener := True\<rparr>) =
     [Log ''document updated locally, broadcasting update to peers'', Emit (Message [7]),
      Trigger ''room'' ''client-message'' [7], Emit (Error (Reason ''TypeError'')),
      Emit (Save 0)]"
  by (simp add: constructor_def resync_setup_def or_5000_def connect_def Let_def
                setInterval_def new_handle_def
                example_config_def example_subscribe_def
                onDocumentUpdate_def emit_message_def save_def save_catch_def emit_error_def
                count_of_def example_online_def example_provider_def example_collab_def)

text \<open>
  Claim C6 (resync). A tick of the resync timer encodes the full document state and
  emits it as a \<open>message\<close> signal, whatever the state and whatever happened since the
  tick before. While a channel handle is held, the tick sends that encoding on the
  channel's \<open>client-message\<close> event, once through the listener of the signal and once
  more directly.
\<close>

theorem resync_tick_full_state:
  "Emit (Message (Y_encodeStateAsUpdate C (ystate (doc s)))) \<in> set (resync_tick C s) \<and>
   (channel s = Some c \<longrightarrow>
      resync_tick C s =
        [Log ''resyncing (resync interval elapsed)'',
         Emit (Message (Y_encodeStateAsUpdate C (ystate (doc s)))),
         Trigger c ''client-message'' (Y_encodeStateAsUpdate C (ystate (doc s))),
         Trigger c ''client-message'' (Y_encodeStateAsUpdate C (ystate (doc s)))])"
  by (simp add: resync_tick_def emit_message_def)

theorem resync_tick_full_state_witness:
  "channel example_online = Some ''room'' \<and>
   resync_tick example_collab example_online =
     [Log ''resyncing (resync interval elapsed)'', Emit (Message []),
      Trigger ''room'' ''client-message'' [], Trigger ''room'' ''client-message'' []]"
  using resync_tick_full_state [of example_collab example_online "''room''"]
  by (simp add: example_online_def example_provider_def example_collab_def)

section \<open>The document store\<close>

text \<open>
  Claim C4 (store failures). The claim holds for \<open>save\<close> and fails for \<open>onConnect\<close>.
  Take the constructed provider with a store object whose calls reject and a listener
  on \<open>error\<close>. On a subscription success \<open>onConnect\<close> calls \<open>store.get\<close> and suspends;
  when that promise rejects, the promise of \<open>onConnect\<close> rejects with nobody to handle
  it: the state is what it was, the connected flag stays false, and neither an \<open>error\<close>
  nor a \<open>status\<close> signal is emitted. \<open>save\<close> calls \<open>store.set\<close> and suspends; when
  that promise rejects, the rejection is emitted as an \<open>error\<close> signal and \<open>save\<close> is
  emitted after it. On the provider as constructed, with no store object at all,
  \<open>onConnect\<close> stops at the same line with a \<open>TypeError\<close>.
\<close>

theorem store_get_rejection_aborts_connect:
  "emit_connect (with_store failing_store example_provider) =
     (with_store failing_store example_provider,
      [Emit Connect, Log ''connected'', Store_get,
       Awaiting (Connect_job (Get_rejected ''store unavailable''))]) \<and>
   resume example_collab (Connect_job (Get_rejected ''store unavailable''))
     (with_store failing_store example_provider) =
     (with_store failing_store example_provider,
      [Unhandled_rejection ''store unavailable'']) \<and>
   \<not> connected (fst (resume example_collab (Connect_job (Get_rejected ''store unavailable''))
                      (with_store failing_store example_provider))) \<and>
   save example_collab (with_store failing_store example_provider) =
     [Store_set [], Awaiting (Save_job (Set_rejected ''store unavailable''))] \<and>
   resume example_collab (Save_job (Set_rejected ''store unavailable''))
     (with_store failing_store example_provider) =
     (with_store failing_store example_provider,
      [Emit (Error (Reason ''store unavailable'')), Emit (Save 0)]) \<and>
   emit_connect example_provider =
     (example_provider, [Emit Connect, Log ''connected'', Unhandled_rejection ''TypeError''])"
  by (simp add: emit_connect_def onConnect_def resume_def onConnect_resume_def
                save_def save_resume_def save_catch_def emit_error_def
                with_store_def failing_store_def example_collab_def example_provider_def)

section \<open>Configuration of the resync timer\<close>

text \<open>
  Claim C5 (resync configuration), as amended. A \<open>resyncInterval\<close> that is not zero and
  is below 3000 makes the constructor throw, so no provider is constructed. The values
  \<open>0\<close> and \<open>NaN\<close> are falsy and are treated as \<open>false\<close> is: the constructor returns
  and arms no timer. An omitted \<open>resyncInterval\<close> calls \<open>setInterval\<close> with 5000,
  \<open>false\<close> arms no timer, and a value of 3000 or more is passed to \<open>setInterval\<close>
  unchanged. The period of the timer is what the host makes of that argument: under
  Node a whole number of milliseconds from 3000 to 2147483647 is the period unchanged,
  and so is the default of 5000, while a fraction is truncated and a larger value gives
  a period of 1 ms.
\<close>

theorem resync_configuration:
  "(q \<noteq> 0 \<and> q < 3000 \<longrightarrow>
      constructor h d sub (cfg\<lparr>cfg_resyncInterval := Resync_number (Num q)\<rparr>) =
        Inl ''resync interval of less than 3 seconds'') \<and>
   constructor h d sub (cfg\<lparr>cfg_resyncInterval := Resync_number Neg_Infinity\<rparr>) =
     Inl ''resync interval of less than 3 seconds'' \<and>
   (\<exists>s t. constructor h d sub (cfg\<lparr>cfg_resyncInterval := Resync_number (Num 0)\<rparr>) = Inr (s, t) \<and>
          resyncInterval s = None \<and> intervals (host s) = intervals h \<and>
          filter is_set_interval t = []) \<and>
   (\<exists>s t. constructor h d sub (cfg\<lparr>cfg_resyncInterval := Resync_number NaN\<rparr>) = Inr (s, t) \<and>
          resyncInterval s = None \<and> intervals (host s) = intervals h \<and>
          filter is_set_interval t = []) \<and>
   (\<exists>s t. constructor h d sub (cfg\<lparr>cfg_resyncInterval := Resync_undefined\<rparr>) = Inr (s, t) \<and>
          resyncInterval s = Some (new_handle (intervals h)) \<and>
          intervals (host s) =
            intervals h @ [(new_handle (intervals h), timer_delay h (Num 5000))] \<and>
          filter is_set_interval t = [Set_interval (Num 5000)]) \<and>
   (\<exists>s t. constructor h d sub (cfg\<lparr>cfg_resyncInterval := Resync_false\<rparr>) = Inr (s, t) \<and>
          resyncInterval s = None \<and> intervals (host s) = intervals h \<and>
          filter is_set_interval t = []) \<and>
   (3000 \<le> q \<longrightarrow>
      (\<exists>s t. constructor h d sub (cfg\<lparr>cfg_resyncInterval := Resync_number (Num q)\<rparr>) = Inr (s, t) \<and>
             resyncInterval s = Some (new_handle (intervals h)) \<and>
             intervals (host s) =
               intervals h @ [(new_handle (intervals h), timer_delay h (Num q))] \<and>
             filter is_set_interval t = [Set_interval (Num q)])) \<and>
   (\<exists>s t. constructor h d sub (cfg\<lparr>cfg_resyncInterval := Resync_number Infinity\<rparr>) = Inr (s, t) \<and>
          resyncInterval s = Some (new_handle (intervals h)) \<and>
          intervals (host s) =
            intervals h @ [(new_handle (intervals h), timer_delay h Infinity)] \<and>
          filter is_set_interval t = [Set_interval Infinity]) \<and>
   (3000 \<le> k \<and> k \<le> 2147483647 \<longrightarrow> node_delay (Num (of_int k)) = k) \<and>
   (3000 \<le> q \<and> q \<le> 2147483647 \<longrightarrow> node_delay (Num q) = \<lfloor>q\<rfloor>) \<and>
   (2147483647 < q \<longrightarrow> node_delay (Num q) = 1) \<and>
   node_delay Infinity = 1 \<and>
   node_delay (Num 5000) = 5000"
proof -
  have nq: "3000 \<le> q \<and> q \<le> 2147483647 \<longrightarrow> node_delay (Num q) = \<lfloor>q\<rfloor>"
    by (simp add: node_delay_def)
  have nd: "3000 \<le> k \<and> k \<le> 2147483647 \<longrightarrow> node_delay (Num (of_int k)) = k"
  proof (intro impI, elim conjE)
    assume a: "3000 \<le> k" and b: "k \<le> 2147483647"
    from a have "(1::rat) \<le> of_int k"
      by (metis of_int_1_le_iff order_trans one_le_numeral)
    moreover from b have "(of_int k :: rat) \<le> 2147483647"
      by (metis of_int_le_iff of_int_numeral)
    ultimately show "node_delay (Num (of_int k)) = k"
      by (simp add: node_delay_def)
  qed
  have nb: "2147483647 < q \<longrightarrow> node_delay (Num q) = 1"
    by (simp add: node_delay_def)
  have ni: "node_delay Infinity = 1" by (simp add: node_delay_def)
  have n5: "node_delay (Num 5000) = 5000" by (simp add: node_delay_def)
  have rest:
   "(q \<noteq> 0 \<and> q < 3000 \<longrightarrow>
      constructor h d sub (cfg\<lparr>cfg_resyncInterval := Resync_number (Num q)\<rparr>) =
        Inl ''resync interval of less than 3 seconds'') \<and>
   constructor h d sub (cfg\<lparr>cfg_resyncInterval := Resync_number Neg_Infinity\<rparr>) =
     Inl ''resync interval of less than 3 seconds'' \<and>
   (\<exists>s t. constructor h d sub (cfg\<lparr>cfg_resyncInterval := Resync_number (Num 0)\<rparr>) = Inr (s, t) \<and>
          resyncInterval s = None \<and> intervals (host s) = intervals h \<and>
          filter is_set_interval t = []) \<and>
   (\<exists>s t. constructor h d sub (cfg\<lparr>cfg_resyncInterval := Resync_number NaN\<rparr>) = Inr (s, t) \<and>
          resyncInterval s = None \<and> intervals (host s) = intervals h \<and>
          filter is_set_interval t = []) \<and>
   (\<exists>s t. constructor h d sub (cfg\<lparr>cfg_resyncInterval := Resync_undefined\<rparr>) = Inr (s, t) \<and>
          resyncInterval s = Some (new_handle (intervals h)) \<and>
          intervals (host s) =
            intervals h @ [(new_handle (intervals h), timer_delay h (Num 5000))] \<and>
          filter is_set_interval t = [Set_interval (Num 5000)]) \<and>
   (\<exists>s t. constructor h d sub (cfg\<lparr>cfg_resyncInterval := Resync_false\<rparr>) = Inr (s, t) \<and>
          resyncInterval s = None \<and> intervals (host s) = intervals h \<and>
          filter is_set_interval t = []) \<and>
   (3000 \<le> q \<longrightarrow>
      (\<exists>s t. constructor h d sub (cfg\<lparr>cfg_resyncInterval := Resync_number (Num q)\<rparr>) = Inr (s, t) \<and>
             resyncInterval s = Some (new_handle (intervals h)) \<and>
             intervals (host s) =
               intervals h @ [(new_handle (intervals h), timer_delay h (Num q))] \<and>
             filter is_set_interval t = [Set_interval (Num q)])) \<and>
   (\<exists>s t. constructor h d sub (cfg\<lparr>cfg_resyncInterval := Resync_number Infinity\<rparr>) = Inr (s, t) \<and>
          resyncInterval s = Some (new_handle (intervals h)) \<and>
          intervals (host s) =
            intervals h @ [(new_handle (intervals h), timer_delay h Infinity)] \<and>
          filter is_set_interval t = [Set_interval Infinity])"
    by (cases "sub (cfg_channel cfg)")
       (simp_all add: constructor_def resync_setup_def or_5000_def connect_def Let_def
                      setInterval_def add_unload_hook_timers)
  from rest nd nq nb ni n5 show ?thesis by blast
qed

theorem resync_configuration_witness:
  "(2999::rat) \<noteq> 0 \<and> (2999::rat) < 3000 \<and>
   constructor example_host example_doc example_subscribe
     (example_config\<lparr>cfg_resyncInterval := Resync_number (Num 2999)\<rparr>) =
     Inl ''resync interval of less than 3 seconds'' \<and>
   (3000::rat) \<le> 3000 \<and>
   map_sum id (intervals \<circ> host \<circ> fst)
     (constructor example_host example_doc example_subscribe
        (example_config\<lparr>cfg_resyncInterval := Resync_number (Num 3000)\<rparr>)) = Inr [(1, 3000)]"
proof -
  have nh: "new_handle (intervals example_host) = 1"
    by (simp add: new_handle_def example_host_def)
  have td: "timer_delay example_host (Num 3000) = 3000"
    using resync_configuration [of 3000 example_host example_doc example_subscribe
                                   example_config 3000]
    by (simp add: example_host_def)
  have iv: "intervals example_host = []"
    by (simp add: example_host_def)
  from resync_configuration [of 2999 example_host example_doc example_subscribe example_config 3000]
       resync_configuration [of 3000 example_host example_doc example_subscribe example_config 3000]
       nh td iv
  show ?thesis by auto
qed

text \<open>
  The claim as it was stated fails at \<open>0\<close>, a value below the floor on which the
  constructor does not throw, and at 2147483648 and 3000.5, values above the floor that
  Node does not use unchanged: the timers it arms have periods of 1 ms and 3000 ms.
\<close>

theorem resync_zero_or_huge_not_as_claimed:
  "(0::rat) < 3000 \<and>
   \<not> isl (constructor example_host example_doc example_subscribe
            (example_config\<lparr>cfg_resyncInterval := Resync_number (Num 0)\<rparr>)) \<and>
   map_sum id (resyncInterval \<circ> fst)
     (constructor example_host example_doc example_subscribe
        (example_config\<lparr>cfg_resyncInterval := Resync_number (Num 0)\<rparr>)) = Inr None \<and>
   (3000::rat) \<le> 2147483648 \<and>
   map_sum id (intervals \<circ> host \<circ> fst)
     (constructor example_host example_doc example_subscribe
        (example_config\<lparr>cfg_resyncInterval := Resync_number (Num 2147483648)\<rparr>)) = Inr [(1, 1)] \<and>
   (3000::rat) \<le> 6001 / 2 \<and>
   map_sum id (intervals \<circ> host \<circ> fst)
     (constructor example_host example_doc example_subscribe
        (example_config\<lparr>cfg_resyncInterval := Resync_number (Num (6001 / 2))\<rparr>)) = Inr [(1, 3000)]"
proof -
  have fl: "\<lfloor>(6001::rat) / 2\<rfloor> = 3000"
    by (rule floor_unique) simp_all
  show ?thesis
    by (simp add: constructor_def resync_setup_def or_5000_def connect_def Let_def
                  setInterval_def new_handle_def add_unload_hook_def node_delay_def fl
                  example_config_def example_subscribe_def example_host_def)
qed

section \<open>Connection lifecycle\<close>




text \<open>
  Claim C8 (teardown). The claim fails on the code. \<open>destroy()\<close> clears the timer and
  releases the channel handle, and a second \<open>destroy()\<close> returns as well. But it calls
  \<open>off\<close> with the prototype methods, while the constructor registered the functions
  \<open>.bind(this)\<close> returned, and under Node it calls \<open>process.off\<close> with a new arrow
  function. So on the provider the constructor yields for the example configuration,
  all three listeners are still registered after \<open>destroy()\<close>, and a later local
  document update or awareness update still runs the provider's handlers: the
  \<open>message\<close> signal is emitted and \<open>save\<close> runs, which calls \<open>store.set\<close> when the
  provider has a store object.
\<close>

theorem destroy_keeps_listeners:
  "constructor example_host example_doc example_subscribe example_config =
     Inr (example_provider,
          [Log ''constructor initializing'', Log ''connecting to Pingerchips Realtime'',
           Log ''setting resync interval to every'', Set_interval (Num 5000),
           Subscribe ''room'', Bind ''room'' ''client-message'',
           Bind ''room'' ''client-awareness'', Bind ''room'' ''pusher:error'',
           Bind ''room'' ''pusher:subscription_error'',
           Bind ''room'' ''pusher:subscription_succeeded'']) \<and>
   destroy example_provider =
     Inr (example_destroyed,
          [Log ''destroying'', Clear_interval 1, Channel_disconnect ''room'']) \<and>
   doc_observers (doc example_destroyed) = [OnDocumentUpdate_bound] \<and>
   aw_observers (awareness example_destroyed) = [OnAwarenessUpdate_bound] \<and>
   hooks (host example_destroyed) = [Exit_arrow_256] \<and>
   doc_fire_update example_collab [7] Undefined example_destroyed =
     [Log ''document updated locally, broadcasting update to peers'',
      Emit (Message [7]), Unhandled_rejection ''TypeError''] \<and>
   doc_fire_update example_collab [7] Undefined (with_store working_store example_destroyed) =
     [Log ''document updated locally, broadcasting update to peers'',
      Emit (Message [7]), Store_set [], Awaiting (Save_job Set_resolved)] \<and>
   resume example_collab (Save_job Set_resolved) (with_store working_store example_destroyed) =
     (with_store working_store example_destroyed, [Emit (Save 0)]) \<and>
   aw_fire_update example_collab [] [1] [] (Other ''local'') example_destroyed =
     [Emit (Awareness [1, 1])] \<and>
   destroy example_destroyed = Inr (example_destroyed, [Log ''destroying'', Clear_interval 1])"
  by (simp add: constructor_def resync_setup_def or_5000_def connect_def Let_def
                setInterval_def new_handle_def clearInterval_def node_delay_def
                add_unload_hook_def new_Awareness_def destroy_def disconnect_def
                channel_disconnect_def remove_unload_hook_def
                example_config_def example_subscribe_def example_host_def example_doc_def
                example_provider_def example_destroyed_def example_collab_def
                with_store_def working_store_def resume_def save_resume_def
                doc_fire_update_def onDocumentUpdate_def emit_message_def save_def
                save_catch_def emit_error_def
                aw_fire_update_def onAwarenessUpdate_def emit_awareness_def)

text \<open>
  Claim C9 (authorization failure), as amended. On a subscription error with status 403
  the provider logs \<open>PUSHER AUTH ERROR\<close> and calls \<open>emit('error', this)\<close>. With a
  listener attached to \<open>error\<close>, the \<open>error\<close> signal and the \<open>disconnect\<close> signal are
  emitted and \<open>onDisconnect\<close> runs, which leaves the connected flag and the synced flag
  false. With no such listener the emitter throws: no \<open>disconnect\<close> signal follows and
  the state is unchanged. In both cases the state after the callback and everything in
  its trace but the first logged line are the same as for a generic channel error; the
  logged line alone tells the two apart.
\<close>

theorem subscription_error_403:
  "(error_listener s \<longrightarrow>
      channel_event C (Subscription_error (Some 403)) s =
        (fst (onDisconnect C s),
         [Log ''PUSHER AUTH ERROR'', Emit (Error Provider), Emit Disconnect] @
         snd (onDisconnect C s)) \<and>
      \<not> connected (fst (channel_event C (Subscription_error (Some 403)) s)) \<and>
      \<not> synced_field (fst (channel_event C (Subscription_error (Some 403)) s)) \<and>
      channel_event C Pusher_error s =
        (fst (onDisconnect C s),
         [Log ''PUSHER_ERROR'', Emit (Error Provider), Emit Disconnect] @
         snd (onDisconnect C s))) \<and>
   (\<not> error_listener s \<longrightarrow>
      channel_event C (Subscription_error (Some 403)) s =
        (s, [Log ''PUSHER AUTH ERROR'', Uncaught ''ERR_UNHANDLED_ERROR'']) \<and>
      channel_event C Pusher_error s =
        (s, [Log ''PUSHER_ERROR'', Uncaught ''ERR_UNHANDLED_ERROR''])) \<and>
   fst (channel_event C (Subscription_error (Some 403)) s) = fst (channel_event C Pusher_error s) \<and>
   tl (snd (channel_event C (Subscription_error (Some 403)) s)) =
     tl (snd (channel_event C Pusher_error s)) \<and>
   hd (snd (channel_event C (Subscription_error (Some 403)) s)) = Log ''PUSHER AUTH ERROR'' \<and>
   hd (snd (channel_event C Pusher_error s)) = Log ''PUSHER_ERROR'' \<and>
   Log ''PUSHER AUTH ERROR'' \<notin> set (snd (channel_event C Pusher_error s))"
  using onDisconnect_logs [of C s] onDisconnect_flags [of C s]
  by (cases "error_listener s")
     (simp_all add: channel_event_def emit_disconnect_def emit_error_def case_prod_beta)

theorem subscription_error_403_witness:
  "error_listener (with_store working_store example_online) \<and>
   \<not> connected (fst (channel_event example_collab (Subscription_error (Some 403))
                       (with_store working_store example_online))) \<and>
   \<not> error_listener example_online \<and>
   channel_event example_collab (Subscription_error (Some 403)) example_online =
     (example_online, [Log ''PUSHER AUTH ERROR'', Uncaught ''ERR_UNHANDLED_ERROR''])"
proof -
  have a: "error_listener (with_store working_store example_online)"
    by (simp add: with_store_def)
  have b: "\<not> error_listener example_online"
    by (simp add: example_online_def example_provider_def)
  from subscription_error_403 [of "with_store working_store example_online" example_collab] a
  have c: "\<not> connected (fst (channel_event example_collab (Subscription_error (Some 403))
                       (with_store working_store example_online)))"
    by blast
  from subscription_error_403 [of example_online example_collab] b
  have d: "channel_event example_collab (Subscription_error (Some 403)) example_online =
     (example_online, [Log ''PUSHER AUTH ERROR'', Uncaught ''ERR_UNHANDLED_ERROR''])"
    by blast
  from a b c d show ?thesis by blast
qed

text \<open>
  The claim as it was stated fails on the constructed provider, which has no listener
  on \<open>error\<close>: no \<open>disconnect\<close> signal is emitted and the connected flag stays true.
  And where a listener is attached, the state and every signal are the same as for a
  generic channel error.
\<close>

theorem subscription_error_403_not_as_claimed:
  "\<not> error_listener example_online \<and>
   channel_event example_collab (Subscription_error (Some 403)) example_online =
     (example_online, [Log ''PUSHER AUTH ERROR'', Uncaught ''ERR_UNHANDLED_ERROR'']) \<and>
   connected (fst (channel_event example_collab (Subscription_error (Some 403)) example_online)) \<and>
   fst (channel_event example_collab (Subscription_error (Some 403))
          (with_store working_store example_online)) =
   fst (channel_event example_collab Pusher_error (with_store working_store example_online)) \<and>
   non_log (snd (channel_event example_collab (Subscription_error (Some 403))
                   (with_store working_store example_online))) =
   non_log (snd (channel_event example_collab Pusher_error
                   (with_store working_store example_online)))"
  by (simp add: channel_event_def emit_disconnect_def emit_error_def case_prod_beta
                with_store_def example_online_def example_provider_def)

text \<open>
  Claim C10 (no disconnected status). In \<open>onDisconnect\<close> the flag is read right after
  \<open>isOnline(false)\<close> has set it, so the read gives false in every state, and the trace
  of \<open>onDisconnect\<close> holds no \<open>status\<close> signal at all.
\<close>

theorem onDisconnect_never_emits_status:
  "fst (isOnline None (snd (isOnline (Some False) s0))) = False \<and>
   count_of is_status_signal (snd (onDisconnect C s)) = 0"
  by (simp add: isOnline_def onDisconnect_unfold Let_def count_of_def set_synced_def
                aw_fire_update_no_status)

theorem onDisconnect_never_emits_status_witness:
  "count_of is_status_signal (snd (onDisconnect example_collab example_online)) = 0"
  using onDisconnect_never_emits_status
          [where ?s0.0 = example_online and C = example_collab and s = example_online]
  by simp

end
